theory Spec2Isabelle
  imports Main "HOL-Library.Word"
begin

unbundle bit_operations_syntax

section \<open>How a call ends\<close>

text \<open>
  A Go function of this repository either returns, or unwinds with a panic, or ends the
  process with \<open>os.Exit\<close>. The three ways a call can fail to return are values of
  \<open>abort\<close>; a call's result is \<open>abort + 'a\<close>, with \<open>Inr\<close> for a normal return.
  \<^item> \<open>NilPointerDereference\<close>: the runtime panic of a method call through a nil pointer;
  \<^item> \<open>SliceBoundsOutOfRange hi len\<close>: the runtime panic of \<open>s[:hi]\<close> on a string of
    \<open>len < hi\<close> bytes;
  \<^item> \<open>PanicMessage m\<close>: an explicit \<open>panic(m)\<close>;
  \<^item> \<open>ExitStatus n\<close>: \<open>os.Exit(n)\<close>.
\<close>

datatype abort =
    NilPointerDereference
  | SliceBoundsOutOfRange nat nat
  | PanicMessage string
  | ExitStatus nat

type_synonym byte = "8 word"

section \<open>Library: crypto/sha256\<close>

text \<open>
  The hash is the Go standard library's, not code of the repository. It is modelled after
  FIPS 180-4: 32-bit words are integers in \<open>[0, 2^32)\<close> with the wrap-around of every
  addition written out (\<open>u32\<close>), rotations are written with \<open>div\<close> and \<open>mod\<close>.
\<close>

definition u32 :: "int \<Rightarrow> int" where
  "u32 x = x mod 4294967296"

definition rotr :: "nat \<Rightarrow> int \<Rightarrow> int" where
  "rotr n x = x div 2 ^ n + (x mod 2 ^ n) * 2 ^ (32 - n)"

definition not32 :: "int \<Rightarrow> int" where
  "not32 x = 4294967295 - x"

definition bsig0 :: "int \<Rightarrow> int" where
  "bsig0 a = rotr 2 a XOR rotr 13 a XOR rotr 22 a"

definition bsig1 :: "int \<Rightarrow> int" where
  "bsig1 e = rotr 6 e XOR rotr 11 e XOR rotr 25 e"

definition ssig0 :: "int \<Rightarrow> int" where
  "ssig0 v = rotr 7 v XOR rotr 18 v XOR (v div 2 ^ 3)"

definition ssig1 :: "int \<Rightarrow> int" where
  "ssig1 v = rotr 17 v XOR rotr 19 v XOR (v div 2 ^ 10)"

definition K256 :: "int list" where
  "K256 = [
    0x428A2F98, 0x71374491, 0xB5C0FBCF, 0xE9B5DBA5, 0x3956C25B, 0x59F111F1, 0x923F82A4, 0xAB1C5ED5,
    0xD807AA98, 0x12835B01, 0x243185BE, 0x550C7DC3, 0x72BE5D74, 0x80DEB1FE, 0x9BDC06A7, 0xC19BF174,
    0xE49B69C1, 0xEFBE4786, 0x0FC19DC6, 0x240CA1CC, 0x2DE92C6F, 0x4A7484AA, 0x5CB0A9DC, 0x76F988DA,
    0x983E5152, 0xA831C66D, 0xB00327C8, 0xBF597FC7, 0xC6E00BF3, 0xD5A79147, 0x06CA6351, 0x14292967,
    0x27B70A85, 0x2E1B2138, 0x4D2C6DFC, 0x53380D13, 0x650A7354, 0x766A0ABB, 0x81C2C92E, 0x92722C85,
    0xA2BFE8A1, 0xA81A664B, 0xC24B8B70, 0xC76C51A3, 0xD192E819, 0xD6990624, 0xF40E3585, 0x106AA070,
    0x19A4C116, 0x1E376C08, 0x2748774C, 0x34B0BCB5, 0x391C0CB3, 0x4ED8AA4A, 0x5B9CCA4F, 0x682E6FF3,
    0x748F82EE, 0x78A5636F, 0x84C87814, 0x8CC70208, 0x90BEFFFA, 0xA4506CEB, 0xBEF9A3F7, 0xC67178F2]"

type_synonym hstate = "int \<times> int \<times> int \<times> int \<times> int \<times> int \<times> int \<times> int"

definition H256 :: hstate where
  "H256 = (0x6A09E667, 0xBB67AE85, 0x3C6EF372, 0xA54FF53A,
           0x510E527F, 0x9B05688C, 0x1F83D9AB, 0x5BE0CD19)"

text \<open>Four bytes, most significant first, make one word of the block.\<close>

fun be32 :: "int list \<Rightarrow> int list" where
  "be32 (a # b # c # d # r) = (a * 16777216 + b * 65536 + c * 256 + d) # be32 r"
| "be32 _ = []"

text \<open>
  The message schedule, one word for each round constant. \<open>win\<close> is the window of the
  sixteen words before the one being made: \<open>w[i] = ssig1 w[i-2] + w[i-7] + ssig0 w[i-15] +
  w[i-16]\<close>.
\<close>

fun schedule :: "int list \<Rightarrow> int list \<Rightarrow> int list" where
  "schedule [] win = []"
| "schedule (k # ks) win =
     (case win of
        [] \<Rightarrow> []
      | w0 # rest \<Rightarrow>
          w0 # schedule ks
                 (rest @ [u32 (ssig1 (win ! 14) + win ! 9 + ssig0 (win ! 1) + w0)]))"

definition round1 :: "int \<Rightarrow> int \<Rightarrow> hstate \<Rightarrow> hstate" where
  "round1 k w s = (case s of (a, b, c, d, e, f, g, h) \<Rightarrow>
     (let t1 = h + bsig1 e + ((e AND f) XOR (not32 e AND g)) + k + w;
          t2 = bsig0 a + ((a AND b) XOR (a AND c) XOR (b AND c))
      in (u32 (t1 + t2), a, b, c, u32 (d + t1), e, f, g)))"

fun rounds :: "int list \<Rightarrow> int list \<Rightarrow> hstate \<Rightarrow> hstate" where
  "rounds (k # ks) (w # ws) s = rounds ks ws (round1 k w s)"
| "rounds _ _ s = s"

definition hadd :: "hstate \<Rightarrow> hstate \<Rightarrow> hstate" where
  "hadd s t = (case s of (a, b, c, d, e, f, g, h) \<Rightarrow>
     (case t of (a', b', c', d', e', f', g', h') \<Rightarrow>
        (u32 (a + a'), u32 (b + b'), u32 (c + c'), u32 (d + d'),
         u32 (e + e'), u32 (f + f'), u32 (g + g'), u32 (h + h'))))"

definition block :: "hstate \<Rightarrow> int list \<Rightarrow> hstate" where
  "block hs p = hadd hs (rounds K256 (schedule K256 (be32 p)) hs)"

text \<open>The padded message is hashed 64 bytes at a time.\<close>

function blocks :: "hstate \<Rightarrow> int list \<Rightarrow> hstate" where
  "blocks hs p = (if length p < 64 then hs else blocks (block hs (take 64 p)) (drop 64 p))"
  by pat_completeness auto
termination
  by (relation "measure (\<lambda>(hs, p). length p)") auto

declare blocks.simps [simp del]

text \<open>
  Padding: the byte \<open>0x80\<close>, zero bytes up to 56 modulo 64, and the length of the
  message in bits as eight bytes, most significant first. As in the library the bit
  length is a 64-bit value.
\<close>

definition be_bytes :: "nat \<Rightarrow> int \<Rightarrow> int list" where
  "be_bytes n x = map (\<lambda>i. (x div 256 ^ i) mod 256) (rev [0..<n])"

definition pad :: "int list \<Rightarrow> int list" where
  "pad m = m @ [128] @ replicate ((119 - length m mod 64) mod 64) 0
             @ be_bytes 8 ((int (length m) * 8) mod 2 ^ 64)"

definition hwords :: "hstate \<Rightarrow> int list" where
  "hwords s = (case s of (a, b, c, d, e, f, g, h) \<Rightarrow> [a, b, c, d, e, f, g, h])"

text \<open>
  The digest of a message, as \<open>sha256.New()\<close>, \<open>Write(m)\<close> and \<open>Sum(nil)\<close> give it: the
  eight words of the final state, four bytes each, most significant first.
\<close>

definition Sum256 :: "byte list \<Rightarrow> byte list" where
  "Sum256 m = map word_of_int (concat (map (be_bytes 4) (hwords (blocks H256 (pad (map uint m))))))"

section \<open>Library: math/big, fmt\<close>

text \<open>
  \<open>new(big.Int).SetBytes(buf)\<close> reads \<open>buf\<close> as the bytes of a big-endian unsigned
  integer of any size.
\<close>

definition SetBytes :: "byte list \<Rightarrow> int" where
  "SetBytes buf = foldl (\<lambda>acc b. acc * 256 + uint b) 0 buf"

text \<open>
  The \<open>Uint64\<close> method of \<open>big.Int\<close> on a non-negative value: the library returns
  the low 64 bits of the magnitude (its documentation leaves the result open when the
  value does not fit).
\<close>

definition Uint64 :: "int \<Rightarrow> 64 word" where
  "Uint64 x = word_of_int x"

text \<open>\<open>fmt.Sprintf("%d", n)\<close> for an unsigned \<open>n\<close>: its decimal digits, no sign, no padding.\<close>

definition digit_char :: "int \<Rightarrow> char" where
  "digit_char d = char_of (48 + d)"

function decimal :: "int \<Rightarrow> string" where
  "decimal n = (if n < 10 then [digit_char n] else decimal (n div 10) @ [digit_char (n mod 10)])"
  by pat_completeness auto
termination
  by (relation "measure nat") auto

declare decimal.simps [simp del]

definition Sprintf_d :: "64 word \<Rightarrow> string" where
  "Sprintf_d n = decimal (uint n)"

section \<open>Library: github.com/itchyny/base58-go\<close>

text \<open>
  \<open>base58.BitcoinEncoding.Encode(src)\<close> encodes the number that \<open>src\<close> spells in base
  10: it parses \<open>src\<close> with \<open>big.Int.SetString(src, 10)\<close> (an optional sign, then one or
  more decimal digits), writes the alphabet's first character for each leading \<open>'0'\<close> of
  \<open>src\<close>, then the base-58 digits of the number, most significant first. It returns an
  error for a string that is no number and for a negative one; the empty input gives the
  empty output.
\<close>

definition alphabet :: string where
  "alphabet = ''123456789ABCDEFGHJKLMNPQRSTUVWXYZabcdefghijkmnopqrstuvwxyz''"

datatype encode_error = NotANumber | NegativeNumber

definition is_digit :: "char \<Rightarrow> bool" where
  "is_digit c = (48 \<le> (of_char c :: int) \<and> (of_char c :: int) \<le> 57)"

definition digits_value :: "string \<Rightarrow> int" where
  "digits_value s = foldl (\<lambda>acc c. acc * 10 + (of_char c - 48)) 0 s"

definition SetString10 :: "string \<Rightarrow> int option" where
  "SetString10 s =
     (let neg = (s \<noteq> [] \<and> hd s = CHR ''-'');
          body = (if s \<noteq> [] \<and> (hd s = CHR ''-'' \<or> hd s = CHR ''+'') then tl s else s)
      in if body = [] \<or> \<not> list_all is_digit body then None
         else Some (if neg then - digits_value body else digits_value body))"

text \<open>The loop of \<open>Encode\<close>: least significant digit first, as the library appends them.\<close>

function radix58 :: "int \<Rightarrow> string" where
  "radix58 n = (if n \<le> 0 then [] else (alphabet ! nat (n mod 58)) # radix58 (n div 58))"
  by pat_completeness auto
termination
  by (relation "measure nat") auto

declare radix58.simps [simp del]

definition Encode :: "string \<Rightarrow> encode_error + string" where
  "Encode src =
     (if src = [] then Inr []
      else case SetString10 src of
             None \<Rightarrow> Inl NotANumber
           | Some n \<Rightarrow>
               if n < 0 then Inl NegativeNumber
               else Inr (replicate (length (takeWhile (\<lambda>c. c = CHR ''0'') src)) (alphabet ! 0)
                         @ rev (radix58 n)))"

section \<open>The code generator (package shortener)\<close>

text \<open>
  \<^verbatim>\<open>
  func sha2560f(input string) []byte {
      algorithm := sha256.New()
      algorithm.Write([]byte(input))
      return algorithm.Sum(nil)
  }
  \<close>
  A Go string is a sequence of bytes, as a HOL \<open>string\<close> is.
\<close>

definition sha2560f :: "string \<Rightarrow> byte list" where
  "sha2560f input = Sum256 (map of_char input)"

text \<open>
  \<^verbatim>\<open>
  func base58Encoded(bytes []byte) string {
      encoding := base58.BitcoinEncoding
      encoded, err := encoding.Encode(bytes)
      if err != nil {
          fmt.Println(err.Error())
          os.Exit(1)
      }
      return string(encoded)
  }
  \<close>
\<close>

definition base58Encoded :: "string \<Rightarrow> abort + string" where
  "base58Encoded bytes =
     (case Encode bytes of
        Inl err \<Rightarrow> Inl (ExitStatus 1)
      | Inr encoded \<Rightarrow> Inr encoded)"

text \<open>
  \<^verbatim>\<open>
  func GeneratedLink(initialLink string, userId string) string {
      urlHashBytes := sha256(initialLink + userId)
      generatedNumber := new(big.Int).SetBytes(urlHashBytes).Uint64()
      finalString := base58Encoded([]byte(fmt.Sprintf("%d", generatedNumber)))
      return finalString[:8]
  }
  \<close>
  The hash helper the body calls is \<open>sha2560f\<close>, the only one the package defines. The
  slice expression \<open>finalString[:8]\<close> panics when the string has fewer than 8 bytes.
\<close>

definition slice_to :: "nat \<Rightarrow> string \<Rightarrow> abort + string" where
  "slice_to hi s =
     (if length s < hi then Inl (SliceBoundsOutOfRange hi (length s)) else Inr (take hi s))"

definition GeneratedLink :: "string \<Rightarrow> string \<Rightarrow> abort + string" where
  "GeneratedLink initialLink userId =
     (let urlHashBytes = sha2560f (initialLink @ userId);
          generatedNumber = Uint64 (SetBytes urlHashBytes)
      in case base58Encoded (Sprintf_d generatedNumber) of
           Inl a \<Rightarrow> Inl a
         | Inr finalString \<Rightarrow> slice_to 8 finalString)"

subsection \<open>The generator as the specification words it\<close>

text \<open>
  The specification's steps 3 to 5, written from its words and independently of the code:
  the digest's trailing 8 bytes read as a big-endian unsigned number (each byte weighted
  by its position), that number's decimal rendering, the base-58 numeral (Bitcoin
  alphabet, most significant digit first, the alphabet's first character for zero) of
  the number the rendering spells, cut to its first 8 characters.
\<close>

fun big_endian :: "byte list \<Rightarrow> int" where
  "big_endian [] = 0"
| "big_endian (b # bs) = uint b * 256 ^ length bs + big_endian bs"

definition base58_number :: "int \<Rightarrow> string" where
  "base58_number n = (if n = 0 then [alphabet ! 0] else rev (radix58 n))"

definition spec_number :: "string \<Rightarrow> string \<Rightarrow> int" where
  "spec_number longUrl ownerId =
     (let digest = Sum256 (map of_char (longUrl @ ownerId))
      in big_endian (drop (length digest - 8) digest))"

definition spec_encoded :: "string \<Rightarrow> string \<Rightarrow> string" where
  "spec_encoded longUrl ownerId =
     base58_number (digits_value (decimal (spec_number longUrl ownerId)))"

definition spec_generate :: "string \<Rightarrow> string \<Rightarrow> string" where
  "spec_generate longUrl ownerId = take 8 (spec_encoded longUrl ownerId)"

section \<open>Library: github.com/go-redis/redis/v8\<close>

text \<open>
  The client library and the server it talks to are not code of the repository. The
  server is modelled as a table from keys to a value and an optional expiry instant,
  read against a clock; \<open>server_up\<close> says whether the server at the client's address
  answers, and \<open>server_fault\<close> is the text of the network error when it does not. Time
  is counted in nanoseconds, the unit of Go's \<open>time.Duration\<close>.
\<close>

record Options =
  Addr :: string
  Password :: string
  DB :: nat

datatype Client = NewClient Options

datatype redis_error = Nil | NetError string

fun Error :: "redis_error \<Rightarrow> string" where
  "Error Nil = ''redis: nil''"
| "Error (NetError m) = m"

definition Second :: nat where
  "Second = 1000000000"

definition Minute :: nat where
  "Minute = 60 * Second"

definition Hour :: nat where
  "Hour = 60 * Minute"

text \<open>
  \<^verbatim>\<open>
  type StorageService struct {
      redisClient *redis.Client
  }
  var (
      storeService = &StorageService{}
      ctx          = context.Background()
  )
  const CacheDuration = 6 * time.Hour
  \<close>
  A nil \<open>*redis.Client\<close> is \<open>None\<close>. The package-level \<open>storeService\<close> is a field of the
  \<open>world\<close>, the state every function of the program runs in. The world also holds the
  one package-level variable of a library that the program reads, the exported
  \<open>base58.BitcoinEncoding\<close>, which the library sets to \<open>New(alphabet)\<close> when it is loaded
  and which any Go code could assign.
\<close>

datatype Encoding = NewEncoding string

record StorageService =
  redisClient :: "Client option"

record world =
  storeService :: StorageService
  BitcoinEncoding :: Encoding
  server_up :: bool
  server_fault :: string
  server_db :: "string \<rightharpoonup> (string \<times> nat option)"
  clock :: nat

definition CacheDuration :: nat where
  "CacheDuration = 6 * Hour"

definition initial_storeService :: StorageService where
  "initial_storeService = \<lparr>redisClient = None\<rparr>"

text \<open>A key is live until its expiry instant; a key without one never expires.\<close>

definition live :: "nat \<Rightarrow> string \<times> nat option \<Rightarrow> bool" where
  "live t e = (case snd e of None \<Rightarrow> True | Some x \<Rightarrow> t < x)"

definition absent_or_expired :: "world \<Rightarrow> string \<Rightarrow> bool" where
  "absent_or_expired w k = (case server_db w k of None \<Rightarrow> True | Some e \<Rightarrow> \<not> live (clock w) e)"

definition elapse :: "nat \<Rightarrow> world \<Rightarrow> world" where
  "elapse d w = w\<lparr>clock := clock w + d\<rparr>"

text \<open>\<open>client.Ping(ctx).Result()\<close>\<close>

definition Ping :: "world \<Rightarrow> redis_error + string" where
  "Ping w = (if server_up w then Inr ''PONG'' else Inl (NetError (server_fault w)))"

text \<open>
  \<open>client.Set(ctx, key, value, expiration).Err()\<close>: the key is written whatever it held
  before; a zero expiration means no expiry.
\<close>

definition Set_cmd :: "string \<Rightarrow> string \<Rightarrow> nat \<Rightarrow> world \<Rightarrow> redis_error option \<times> world" where
  "Set_cmd key val expiration w =
     (if server_up w
      then (None, w\<lparr>server_db := (server_db w)
                        (key \<mapsto> (val, if expiration = 0 then None
                                       else Some (clock w + expiration)))\<rparr>)
      else (Some (NetError (server_fault w)), w))"

text \<open>\<open>client.Get(ctx, key).Result()\<close>: \<open>redis.Nil\<close> for a key that is absent or has expired.\<close>

definition Get_cmd :: "string \<Rightarrow> world \<Rightarrow> redis_error + string" where
  "Get_cmd key w =
     (if server_up w
      then (case server_db w key of
              None \<Rightarrow> Inl Nil
            | Some e \<Rightarrow> if live (clock w) e then Inr (fst e) else Inl Nil)
      else Inl (NetError (server_fault w)))"

section \<open>The mapping store (package store)\<close>

text \<open>
  \<^verbatim>\<open>
  func InitializeStore() *StorageService {
      redisClient := redis.NewClient(&redis.Options{
          Addr:     "localhost:6379",
          Password: "",
          DB:       0,
      })
      pong, err := redisClient.Ping(ctx).Result()
      if err != nil {
          panic(fmt.Sprintf("Error init Redis %v:", err))
      }
      fmt.Printf("\nRedis started successfully: pong message = {%s}", pong)
      storeService.redisClient = redisClient
      return storeService
  }
  \<close>
  What the functions print to standard output is not part of the state.
\<close>

definition InitializeStore :: "world \<Rightarrow> (abort + StorageService) \<times> world" where
  "InitializeStore w =
     (let client = NewClient \<lparr>Addr = ''localhost:6379'', Password = [], DB = 0\<rparr>
      in case Ping w of
           Inl err \<Rightarrow> (Inl (PanicMessage (''Error init Redis '' @ Error err @ '':'')), w)
         | Inr pong \<Rightarrow>
             (let service = (storeService w)\<lparr>redisClient := Some client\<rparr>
              in (Inr service, w\<lparr>storeService := service\<rparr>)))"

text \<open>
  \<^verbatim>\<open>
  func SaveUrlMapping(shortUrl string, originalUrl string, userId string) {
      err := storeService.redisClient.Set(ctx, shortUrl, originalUrl, CacheDuration).Err()
      if err != nil {
          panic(fmt.Sprintf("failed saving key url | Error %v:", err))
      }
  }
  \<close>
  The method call through \<open>storeService.redisClient\<close> is a nil pointer dereference while
  the field is nil.
\<close>

definition SaveUrlMapping :: "string \<Rightarrow> string \<Rightarrow> string \<Rightarrow> world \<Rightarrow> (abort + unit) \<times> world" where
  "SaveUrlMapping shortUrl originalUrl userId w =
     (case redisClient (storeService w) of
        None \<Rightarrow> (Inl NilPointerDereference, w)
      | Some client \<Rightarrow>
          (case Set_cmd shortUrl originalUrl CacheDuration w of
             (Some err, w') \<Rightarrow>
               (Inl (PanicMessage (''failed saving key url | Error '' @ Error err @ '':'')), w')
           | (None, w') \<Rightarrow> (Inr (), w')))"

text \<open>
  \<^verbatim>\<open>
  func RetrieveInitialUrl(shortUrl string) string {
      result, err := storeService.redisClient.Get(ctx, shortUrl).Result()
      if err != nil {
          panic(fmt.Sprintf("failed RetrieveInitialUrl url | Error : %v", err))
      }
      return result
  }
  \<close>
\<close>

definition RetrieveInitialUrl :: "string \<Rightarrow> world \<Rightarrow> (abort + string) \<times> world" where
  "RetrieveInitialUrl shortUrl w =
     (case redisClient (storeService w) of
        None \<Rightarrow> (Inl NilPointerDereference, w)
      | Some client \<Rightarrow>
          (case Get_cmd shortUrl w of
             Inl err \<Rightarrow>
               (Inl (PanicMessage (''failed RetrieveInitialUrl url | Error : '' @ Error err)), w)
           | Inr result \<Rightarrow> (Inr result, w)))"

section \<open>The code generator as a call\<close>

text \<open>
  A Go function can read and assign every package-level variable, so a call of
  \<open>GeneratedLink\<close> is, like the calls of the store, a function of the world that returns
  a result and a world. Its body reads one variable, \<open>base58.BitcoinEncoding\<close>, in
  \<open>base58Encoded\<close>; the hasher of \<open>sha2560f\<close> is made anew by \<open>sha256.New()\<close> in every
  call and is local to it. \<open>Encode_with\<close> is the library's \<open>Encode\<close> method on any
  encoding, \<open>Encode\<close> above is the method on the encoding the library starts with.
\<close>

function radix58_with :: "string \<Rightarrow> int \<Rightarrow> string" where
  "radix58_with abc n =
     (if n \<le> 0 then [] else (abc ! nat (n mod 58)) # radix58_with abc (n div 58))"
  by pat_completeness auto
termination
  by (relation "measure (\<lambda>(abc, n). nat n)") auto

declare radix58_with.simps [simp del]

fun Encode_with :: "Encoding \<Rightarrow> string \<Rightarrow> encode_error + string" where
  "Encode_with (NewEncoding abc) src =
     (if src = [] then Inr []
      else case SetString10 src of
             None \<Rightarrow> Inl NotANumber
           | Some n \<Rightarrow>
               if n < 0 then Inl NegativeNumber
               else Inr (replicate (length (takeWhile (\<lambda>c. c = CHR ''0'') src)) (abc ! 0)
                         @ rev (radix58_with abc n)))"

declare Encode_with.simps [simp del]

definition base58Encoded_call :: "string \<Rightarrow> world \<Rightarrow> (abort + string) \<times> world" where
  "base58Encoded_call bytes w =
     (let encoding = BitcoinEncoding w
      in case Encode_with encoding bytes of
           Inl err \<Rightarrow> (Inl (ExitStatus 1), w)
         | Inr encoded \<Rightarrow> (Inr encoded, w))"

definition GeneratedLink_call :: "string \<Rightarrow> string \<Rightarrow> world \<Rightarrow> (abort + string) \<times> world" where
  "GeneratedLink_call initialLink userId w =
     (let urlHashBytes = sha2560f (initialLink @ userId);
          generatedNumber = Uint64 (SetBytes urlHashBytes)
      in case base58Encoded_call (Sprintf_d generatedNumber) w of
           (Inl a, w') \<Rightarrow> (Inl a, w')
         | (Inr finalString, w') \<Rightarrow> (slice_to 8 finalString, w'))"

section \<open>Calls in sequence\<close>

text \<open>
  A program is a sequence of calls of the package functions, with time passing between
  them. Each call runs in the world the previous one left; a call that panics leaves the
  world as its model says and, when the caller recovers (as the web framework's default
  middleware does), later calls go on from there.
\<close>

datatype call =
    CallInitializeStore
  | CallSaveUrlMapping string string string
  | CallRetrieveInitialUrl string
  | CallGeneratedLink string string
  | Wait nat

datatype reply = Done | Text string | Service StorageService

fun exec :: "call \<Rightarrow> world \<Rightarrow> (abort + reply) \<times> world" where
  "exec CallInitializeStore w =
     (case InitializeStore w of (r, w') \<Rightarrow> (map_sum id Service r, w'))"
| "exec (CallSaveUrlMapping shortUrl originalUrl userId) w =
     (case SaveUrlMapping shortUrl originalUrl userId w of
        (r, w') \<Rightarrow> (map_sum id (\<lambda>_. Done) r, w'))"
| "exec (CallRetrieveInitialUrl shortUrl) w =
     (case RetrieveInitialUrl shortUrl w of (r, w') \<Rightarrow> (map_sum id Text r, w'))"
| "exec (CallGeneratedLink initialLink userId) w =
     (case GeneratedLink_call initialLink userId w of (r, w') \<Rightarrow> (map_sum id Text r, w'))"
| "exec (Wait d) w = (Inr Done, elapse d w)"

fun run :: "call list \<Rightarrow> world \<Rightarrow> world" where
  "run [] w = w"
| "run (c # cs) w = run cs (snd (exec c w))"

text \<open>
  Two worlds to evaluate in: the process as it starts, before \<open>InitializeStore\<close>, and a
  process whose store has been initialised against a server that answers and holds no key.
\<close>

definition start_world :: world where
  "start_world = \<lparr>storeService = initial_storeService,
                   BitcoinEncoding = NewEncoding alphabet,
                   server_up = True, server_fault = [], server_db = Map.empty, clock = 0\<rparr>"

definition ready_world :: world where
  "ready_world = snd (InitializeStore start_world)"

text \<open>A call sequence with the owner id of every \<open>SaveUrlMapping\<close> blanked.\<close>

fun blank_owner :: "call \<Rightarrow> call" where
  "blank_owner (CallSaveUrlMapping shortUrl originalUrl userId) =
     CallSaveUrlMapping shortUrl originalUrl []"
| "blank_owner c = c"

fun is_initialize :: "call \<Rightarrow> bool" where
  "is_initialize CallInitializeStore = True"
| "is_initialize _ = False"

section \<open>Facts about the libraries\<close>

lemma length_be_bytes: "length (be_bytes n x) = n"
  by (simp add: be_bytes_def)

lemma length_Sum256: "length (Sum256 m) = 32"
  by (simp add: Sum256_def hwords_def length_be_bytes split: prod.splits)

lemma foldl_SetBytes:
  "foldl (\<lambda>acc b. acc * 256 + uint (b :: byte)) a ys
     = a * 256 ^ length ys + foldl (\<lambda>acc b. acc * 256 + uint b) 0 ys"
proof (induction ys rule: rev_induct)
  case Nil
  then show ?case by simp
next
  case (snoc y ys)
  then show ?case by (simp add: algebra_simps)
qed

lemma SetBytes_append: "SetBytes (xs @ ys) = SetBytes xs * 256 ^ length ys + SetBytes ys"
  unfolding SetBytes_def foldl_append by (rule foldl_SetBytes)

lemma SetBytes_big_endian: "SetBytes d = big_endian d"
proof (induction d)
  case Nil
  then show ?case by (simp add: SetBytes_def)
next
  case (Cons b bs)
  have "SetBytes (b # bs) = SetBytes ([b] @ bs)" by simp
  also have "\<dots> = SetBytes [b] * 256 ^ length bs + SetBytes bs" by (rule SetBytes_append)
  finally show ?case using Cons by (simp add: SetBytes_def)
qed

lemma big_endian_bounds: "0 \<le> big_endian d \<and> big_endian d < 256 ^ length d"
proof (induction d)
  case Nil
  then show ?case by simp
next
  case (Cons b bs)
  let ?P = "(256 :: int) ^ length bs"
  have b: "0 \<le> uint b" "uint b \<le> 255"
    using uint_lt2p [of b] by simp_all
  have "uint b * ?P \<le> 255 * ?P"
    using b by (simp add: mult_right_mono)
  moreover have "0 \<le> uint b * ?P"
    using b by simp
  ultimately have "0 \<le> uint b * ?P + big_endian bs \<and> uint b * ?P + big_endian bs < 255 * ?P + ?P"
    using Cons by linarith
  then show ?case by simp
qed

lemma Uint64_SetBytes:
  assumes "8 \<le> length d"
  shows "uint (Uint64 (SetBytes d)) = big_endian (drop (length d - 8) d)"
proof -
  let ?hi = "take (length d - 8) d" and ?lo = "drop (length d - 8) d"
  have len: "length ?lo = 8" using assms by simp
  have "SetBytes d = SetBytes (?hi @ ?lo)" by simp
  also have "\<dots> = SetBytes ?hi * 256 ^ 8 + big_endian ?lo"
    unfolding SetBytes_append len by (simp add: SetBytes_big_endian)
  finally have split: "SetBytes d = SetBytes ?hi * 2 ^ 64 + big_endian ?lo" by simp
  have range: "0 \<le> big_endian ?lo" "big_endian ?lo < 2 ^ 64"
    using big_endian_bounds [of ?lo] len by simp_all
  have "uint (Uint64 (SetBytes d)) = SetBytes d mod 2 ^ 64"
    by (simp add: Uint64_def uint_word_of_int take_bit_eq_mod)
  also have "\<dots> = big_endian ?lo"
    unfolding split using range by simp
  finally show ?thesis .
qed

lemma of_char_digit_char:
  assumes "0 \<le> d" "d < 10"
  shows "(of_char (digit_char d) :: int) = 48 + d"
proof -
  have "(of_char (char_of (48 + d)) :: int) = (48 + d) mod 256"
    by (rule of_char_of)
  with assms show ?thesis by (simp add: digit_char_def)
qed

lemma is_digit_digit_char: "0 \<le> d \<Longrightarrow> d < 10 \<Longrightarrow> is_digit (digit_char d)"
  by (simp add: is_digit_def of_char_digit_char)

lemma digit_char_eq_iff:
  assumes "0 \<le> d" "d < 10"
  shows "digit_char d = c \<longleftrightarrow> (of_char c :: int) = 48 + d"
  using of_char_digit_char [OF assms] by (metis of_char_eq_iff)

lemma digits_value_snoc: "digits_value (s @ [c]) = digits_value s * 10 + (of_char c - 48)"
  by (simp add: digits_value_def)

lemma decimal_not_Nil: "decimal n \<noteq> []"
  by (subst decimal.simps) simp

lemma decimal_digits: "0 \<le> n \<Longrightarrow> list_all is_digit (decimal n)"
proof (induction n rule: decimal.induct)
  case (1 n)
  show ?case
  proof (cases "n < 10")
    case True
    with "1.prems" show ?thesis
      by (subst decimal.simps) (simp add: is_digit_digit_char)
  next
    case False
    then have "list_all is_digit (decimal (n div 10))"
      using "1.IH" "1.prems" by simp
    moreover have "is_digit (digit_char (n mod 10))"
      by (simp add: is_digit_digit_char)
    ultimately show ?thesis using False
      by (subst decimal.simps) simp
  qed
qed

lemma decimal_value: "0 \<le> n \<Longrightarrow> digits_value (decimal n) = n"
proof (induction n rule: decimal.induct)
  case (1 n)
  show ?case
  proof (cases "n < 10")
    case True
    with "1.prems" show ?thesis
      by (subst decimal.simps) (simp add: digits_value_def of_char_digit_char)
  next
    case False
    then have "digits_value (decimal (n div 10)) = n div 10"
      using "1.IH" "1.prems" by simp
    then show ?thesis using False
      by (subst decimal.simps) (simp add: digits_value_snoc of_char_digit_char)
  qed
qed

lemma hd_decimal: "0 \<le> n \<Longrightarrow> \<exists>d. 0 \<le> d \<and> d < 10 \<and> (n = 0 \<longleftrightarrow> d = 0) \<and> hd (decimal n) = digit_char d"
proof (induction n rule: decimal.induct)
  case (1 n)
  show ?case
  proof (cases "n < 10")
    case True
    with "1.prems" show ?thesis
      by (subst decimal.simps) auto
  next
    case False
    then obtain d where d: "0 \<le> d" "d < 10" "n div 10 = 0 \<longleftrightarrow> d = 0"
        "hd (decimal (n div 10)) = digit_char d"
      using "1.IH" "1.prems" by fastforce
    have "n div 10 \<noteq> 0" using False by simp
    with d False show ?thesis
      by (subst decimal.simps) (auto simp: decimal_not_Nil)
  qed
qed

lemma decimal_unsigned:
  assumes "0 \<le> n"
  shows "hd (decimal n) \<noteq> CHR ''-''" and "hd (decimal n) \<noteq> CHR ''+''"
    and "hd (decimal n) = CHR ''0'' \<longleftrightarrow> n = 0"
proof -
  obtain d where d: "0 \<le> d" "d < 10" "n = 0 \<longleftrightarrow> d = 0" "hd (decimal n) = digit_char d"
    using hd_decimal [OF assms] by blast
  show "hd (decimal n) \<noteq> CHR ''-''" "hd (decimal n) \<noteq> CHR ''+''"
    using d by (simp_all add: digit_char_eq_iff)
  show "hd (decimal n) = CHR ''0'' \<longleftrightarrow> n = 0"
    using d by (simp add: digit_char_eq_iff)
qed

lemma decimal_0: "decimal 0 = ''0''"
proof -
  have "digit_char 0 = CHR ''0''"
    using digit_char_eq_iff [of 0 "CHR ''0''"] by simp
  then show ?thesis
    by (subst decimal.simps) simp
qed

lemma leading_zeros_decimal:
  assumes "0 \<le> n"
  shows "length (takeWhile (\<lambda>c. c = CHR ''0'') (decimal n)) = (if n = 0 then 1 else 0)"
proof (cases "n = 0")
  case True
  then show ?thesis by (simp add: decimal_0)
next
  case False
  then have "hd (decimal n) \<noteq> CHR ''0''"
    using decimal_unsigned(3) [OF assms] by simp
  then have "takeWhile (\<lambda>c. c = CHR ''0'') (decimal n) = []"
    using decimal_not_Nil [of n] by (cases "decimal n") simp_all
  with False show ?thesis by simp
qed

lemma SetString10_decimal: "0 \<le> n \<Longrightarrow> SetString10 (decimal n) = Some n"
  using decimal_unsigned(1,2) [of n]
  by (simp add: SetString10_def Let_def decimal_not_Nil decimal_digits decimal_value)

lemma radix58_0: "radix58 0 = []"
  by (subst radix58.simps) simp

lemma Encode_decimal: "0 \<le> n \<Longrightarrow> Encode (decimal n) = Inr (base58_number n)"
  by (simp add: Encode_def decimal_not_Nil SetString10_decimal leading_zeros_decimal
      base58_number_def radix58_0)

section \<open>The generator against its specification\<close>

lemma sha2560f_length: "length (sha2560f input) = 32"
  by (simp add: sha2560f_def length_Sum256)

lemma spec_number_range: "0 \<le> spec_number url uid"
  using big_endian_bounds by (simp add: spec_number_def Let_def)

lemma generated_number: "uint (Uint64 (SetBytes (sha2560f (url @ uid)))) = spec_number url uid"
proof -
  have "8 \<le> length (sha2560f (url @ uid))"
    by (simp add: sha2560f_length)
  from Uint64_SetBytes [OF this] show ?thesis
    by (simp add: spec_number_def Let_def sha2560f_def)
qed

lemma spec_encoded_eq: "spec_encoded url uid = base58_number (spec_number url uid)"
  by (simp add: spec_encoded_def decimal_value spec_number_range)

lemma base58Encoded_Sprintf:
  "base58Encoded (Sprintf_d (Uint64 (SetBytes (sha2560f (url @ uid))))) = Inr (spec_encoded url uid)"
  by (simp add: base58Encoded_def Sprintf_d_def generated_number Encode_decimal
      spec_number_range spec_encoded_eq)

lemma GeneratedLink_eq: "GeneratedLink url uid = slice_to 8 (spec_encoded url uid)"
  by (simp add: GeneratedLink_def Let_def base58Encoded_Sprintf)

text \<open>
  The base-58 string of a number has more than \<open>k\<close> characters exactly from \<open>58 ^ k\<close> on,
  so the slice in \<open>GeneratedLink\<close> panics exactly when the derived number is below
  \<open>58 ^ 7\<close>.
\<close>

lemma radix58_length_lower: "58 ^ k \<le> n \<Longrightarrow> k < length (radix58 n)"
proof (induction k arbitrary: n)
  case 0
  then show ?case by (subst radix58.simps) simp
next
  case (Suc k)
  then have "58 ^ k \<le> n div 58" by simp
  then have "k < length (radix58 (n div 58))" by (rule Suc.IH)
  moreover have "0 < n" using Suc.prems by (smt (verit) zero_less_power)
  ultimately show ?case by (subst radix58.simps) simp
qed

lemma radix58_length_upper: "n < 58 ^ k \<Longrightarrow> length (radix58 n) \<le> k"
proof (induction k arbitrary: n)
  case 0
  then show ?case by (subst radix58.simps) simp
next
  case (Suc k)
  then have "n div 58 < 58 ^ k" by simp
  then have "length (radix58 (n div 58)) \<le> k" by (rule Suc.IH)
  then show ?case by (subst radix58.simps) simp
qed

lemma GeneratedLink_panics_iff:
  "(\<exists>len. GeneratedLink url uid = Inl (SliceBoundsOutOfRange 8 len))
     \<longleftrightarrow> spec_number url uid < 58 ^ 7"
proof (cases "spec_number url uid = 0")
  case True
  then show ?thesis
    by (simp add: GeneratedLink_eq spec_encoded_eq slice_to_def base58_number_def)
next
  case False
  show ?thesis
  proof (cases "spec_number url uid < 58 ^ 7")
    case True
    from radix58_length_upper [OF this] False show ?thesis
      using True by (simp add: GeneratedLink_eq spec_encoded_eq slice_to_def base58_number_def)
  next
    case f: False
    then have "58 ^ 7 \<le> spec_number url uid" by simp
    from radix58_length_lower [OF this] False f show ?thesis
      by (simp add: GeneratedLink_eq spec_encoded_eq slice_to_def base58_number_def)
  qed
qed

section \<open>Digests of the inputs the claims are evaluated at\<close>

text \<open>The model of the hash on the standard's one-block example, the message \<open>abc\<close>.\<close>

lemma Sum256_abc:
  "Sum256 (map of_char ''abc'')
   = [0xBA, 0x78, 0x16, 0xBF, 0x8F, 0x01, 0xCF, 0xEA, 0x41, 0x41, 0x40, 0xDE, 0x5D, 0xAE, 0x22, 0x23,
      0xB0, 0x03, 0x61, 0xA3, 0x96, 0x17, 0x7A, 0x9C, 0xB4, 0x10, 0xFF, 0x61, 0xF2, 0x00, 0x15, 0xAD]"
  by code_simp

lemma digest_guru3d:
  "Sum256 (map of_char (''https://www.guru3d.com/news-story/spotted-ryzen-threadripper-pro-3995wx-processor-with-8-channel-ddr4,2.html'' @ ''e0dba740-fc4b-4977-872c-d360239e6b1a''))
   = [142, 100, 66, 43, 71, 31, 174, 44, 88, 229, 143, 131, 203, 193, 210, 213,
      31, 136, 233, 101, 167, 48, 33, 28, 253, 215, 37, 36, 31, 3, 19, 1]"
  by code_simp

lemma digest_eddywm:
  "Sum256 (map of_char (''https://www.eddywm.com/lets-build-a-url-shortener-in-go-with-redis-part-2-storage-layer/'' @ ''e0dba740-fc4b-4977-872c-d360239e6b1a''))
   = [119, 70, 53, 214, 209, 25, 223, 251, 103, 73, 138, 180, 81, 226, 253, 107,
      159, 55, 225, 170, 43, 36, 239, 254, 215, 193, 134, 108, 18, 69, 201, 190]"
  by code_simp

lemma digest_short_a:
  "Sum256 (map of_char (''https://a.io/7755385'' @ ''u1''))
   = [184, 135, 187, 187, 14, 158, 78, 55, 36, 20, 48, 174, 111, 82, 167, 142,
      141, 234, 38, 3, 109, 55, 188, 45, 0, 0, 1, 111, 105, 231, 203, 240]"
  by code_simp

lemma digest_short_b:
  "Sum256 (map of_char (''https://a.io/9547104'' @ ''u1''))
   = [76, 28, 206, 198, 212, 245, 46, 182, 35, 181, 43, 110, 242, 219, 38, 183,
      243, 21, 207, 95, 27, 141, 116, 230, 0, 0, 1, 237, 237, 162, 187, 240]"
  by code_simp

section \<open>The claims about the generator\<close>

text \<open>
  The code against the specification's steps 3 to 5. For every input,
  \<open>big.Int.SetBytes\<close> of all 32 digest bytes followed by \<open>Uint64\<close> is the number that the
  digest's trailing 8 bytes spell big-endian, and the encoding step never fails and gives
  the base-58 encoding of that number's decimal rendering. Where that string has at
  least 8 characters, \<open>GeneratedLink\<close> returns its first 8.
\<close>

theorem GeneratedLink_refines_spec:
  "(8 \<le> length (spec_encoded longUrl ownerId) \<longrightarrow>
      GeneratedLink longUrl ownerId = Inr (spec_generate longUrl ownerId))
   \<and> uint (Uint64 (SetBytes (sha2560f (longUrl @ ownerId)))) = spec_number longUrl ownerId
   \<and> base58Encoded (Sprintf_d (Uint64 (SetBytes (sha2560f (longUrl @ ownerId)))))
         = Inr (spec_encoded longUrl ownerId)"
  by (simp add: GeneratedLink_eq slice_to_def spec_generate_def generated_number
      base58Encoded_Sprintf)

theorem GeneratedLink_refines_spec_witness:
  "8 \<le> length (spec_encoded
       ''https://www.eddywm.com/lets-build-a-url-shortener-in-go-with-redis-part-2-storage-layer/''
       ''e0dba740-fc4b-4977-872c-d360239e6b1a'')
   \<and> GeneratedLink
       ''https://www.eddywm.com/lets-build-a-url-shortener-in-go-with-redis-part-2-storage-layer/''
       ''e0dba740-fc4b-4977-872c-d360239e6b1a''
     = Inr (spec_generate
       ''https://www.eddywm.com/lets-build-a-url-shortener-in-go-with-redis-part-2-storage-layer/''
       ''e0dba740-fc4b-4977-872c-d360239e6b1a'')
   \<and> spec_generate
       ''https://www.eddywm.com/lets-build-a-url-shortener-in-go-with-redis-part-2-storage-layer/''
       ''e0dba740-fc4b-4977-872c-d360239e6b1a'' = ''d66yfx7N''"
proof -
  let ?u = "''https://www.eddywm.com/lets-build-a-url-shortener-in-go-with-redis-part-2-storage-layer/''"
  let ?o = "''e0dba740-fc4b-4977-872c-d360239e6b1a''"
  have enc: "spec_encoded ?u ?o = ''d66yfx7NNw7''"
    unfolding spec_encoded_def spec_number_def digest_eddywm by code_simp
  have len: "8 \<le> length (spec_encoded ?u ?o)"
    unfolding enc by simp
  have gen: "spec_generate ?u ?o = ''d66yfx7N''"
    unfolding spec_generate_def enc by simp
  from GeneratedLink_refines_spec [of ?u ?o] len gen show ?thesis
    by simp
qed

text \<open>
  Claim C1 does not hold of the code. It says that for every long URL and owner id
  \<open>GeneratedLink\<close> returns the first 8 characters of the base-58 string. For the long
  URL \<open>https://a.io/9547104\<close> and the owner id \<open>u1\<close> the trailing 8 digest bytes spell
  2121405742064, the base-58 string is \<open>xj6MwT5\<close>, its first 8 characters are that
  string, and \<open>GeneratedLink\<close> panics in the slice instead of returning it.
\<close>

theorem GeneratedLink_misses_short_string:
  "spec_number ''https://a.io/9547104'' ''u1'' = 2121405742064
   \<and> spec_generate ''https://a.io/9547104'' ''u1'' = ''xj6MwT5''
   \<and> GeneratedLink ''https://a.io/9547104'' ''u1'' = Inl (SliceBoundsOutOfRange 8 7)"
proof -
  have num: "spec_number ''https://a.io/9547104'' ''u1'' = 2121405742064"
    unfolding spec_number_def digest_short_b by code_simp
  have enc: "spec_encoded ''https://a.io/9547104'' ''u1'' = ''xj6MwT5''"
    unfolding spec_encoded_def num by code_simp
  show ?thesis
    unfolding GeneratedLink_eq spec_generate_def enc num by (simp add: slice_to_def)
qed

text \<open>
  Claim C2. For the long URL and the owner id of the repository's unit test,
  \<open>GeneratedLink\<close> returns the code \<open>jTa4L57P\<close> that the test pins.
\<close>

theorem GeneratedLink_test_vector:
  "GeneratedLink
     ''https://www.guru3d.com/news-story/spotted-ryzen-threadripper-pro-3995wx-processor-with-8-channel-ddr4,2.html''
     ''e0dba740-fc4b-4977-872c-d360239e6b1a'' = Inr ''jTa4L57P''"
  unfolding GeneratedLink_def sha2560f_def digest_guru3d by code_simp

text \<open>
  Claim C4 does not hold of the code: for the long URL \<open>https://a.io/7755385\<close> and the
  owner id \<open>u1\<close> the derived number is 1578029796336, its base-58 string \<open>iTE6Bif\<close> has 7
  characters, and the slice \<open>finalString[:8]\<close> panics.
\<close>

theorem GeneratedLink_short_string_panics:
  "spec_number ''https://a.io/7755385'' ''u1'' = 1578029796336
   \<and> spec_encoded ''https://a.io/7755385'' ''u1'' = ''iTE6Bif''
   \<and> GeneratedLink ''https://a.io/7755385'' ''u1'' = Inl (SliceBoundsOutOfRange 8 7)"
proof -
  have num: "spec_number ''https://a.io/7755385'' ''u1'' = 1578029796336"
    unfolding spec_number_def digest_short_a by code_simp
  have enc: "spec_encoded ''https://a.io/7755385'' ''u1'' = ''iTE6Bif''"
    unfolding spec_encoded_def num by code_simp
  show ?thesis
    unfolding GeneratedLink_eq enc num by (simp add: slice_to_def)
qed

lemma radix58_with_alphabet: "radix58_with alphabet n = radix58 n"
proof (induction n rule: radix58.induct)
  case (1 n)
  show ?case
  proof (cases "n \<le> 0")
    case True
    then show ?thesis
      by (subst radix58_with.simps, subst radix58.simps) simp
  next
    case False
    with "1.IH" show ?thesis
      by (subst radix58_with.simps, subst radix58.simps) simp
  qed
qed

lemma Encode_with_alphabet: "Encode_with (NewEncoding alphabet) src = Encode src"
  by (simp add: Encode_with.simps Encode_def radix58_with_alphabet split: option.splits)

lemma GeneratedLink_call_writes_nothing: "snd (GeneratedLink_call url uid w) = w"
  by (simp add: GeneratedLink_call_def base58Encoded_call_def Let_def split: sum.splits)

lemma GeneratedLink_call_reads_encoding:
  "BitcoinEncoding w' = BitcoinEncoding w
   \<Longrightarrow> fst (GeneratedLink_call url uid w') = fst (GeneratedLink_call url uid w)"
  by (simp add: GeneratedLink_call_def base58Encoded_call_def Let_def split: sum.splits)

lemma GeneratedLink_call_start:
  "BitcoinEncoding w = NewEncoding alphabet
   \<Longrightarrow> fst (GeneratedLink_call url uid w) = GeneratedLink url uid"
  by (simp add: GeneratedLink_call_def base58Encoded_call_def GeneratedLink_def
      base58Encoded_def Encode_with_alphabet Let_def split: sum.splits)

lemma exec_keeps_encoding: "BitcoinEncoding (snd (exec c w)) = BitcoinEncoding w"
  by (cases c)
    (auto simp: InitializeStore_def SaveUrlMapping_def RetrieveInitialUrl_def Set_cmd_def
      GeneratedLink_call_writes_nothing case_prod_beta elapse_def Let_def
      split: sum.splits option.splits if_splits)

lemma run_keeps_encoding: "BitcoinEncoding (run cs w) = BitcoinEncoding w"
  by (induction cs arbitrary: w) (simp_all add: exec_keeps_encoding)

text \<open>
  Claim C7. A call of \<open>GeneratedLink\<close> assigns nothing: it leaves the world as it found
  it. Of the world it reads only the library's \<open>BitcoinEncoding\<close>: in two worlds that
  agree on that variable, whatever their store, server and clock, the same pair gets
  the same result. No call of the program assigns that variable. So after any two
  histories of calls from one start the same pair gets the same result, and from a start
  in which the variable holds what the library sets it to, that result is
  \<open>GeneratedLink\<close> of the pair.
\<close>

theorem GeneratedLink_deterministic:
  "snd (GeneratedLink_call longUrl ownerId w) = w
   \<and> (BitcoinEncoding w' = BitcoinEncoding w \<longrightarrow>
        fst (GeneratedLink_call longUrl ownerId w') = fst (GeneratedLink_call longUrl ownerId w))
   \<and> BitcoinEncoding (run history w) = BitcoinEncoding w
   \<and> fst (GeneratedLink_call longUrl ownerId (run history w))
       = fst (GeneratedLink_call longUrl ownerId (run history' w))
   \<and> (BitcoinEncoding w = NewEncoding alphabet \<longrightarrow>
        fst (GeneratedLink_call longUrl ownerId (run history w)) = GeneratedLink longUrl ownerId)"
proof -
  have same: "fst (GeneratedLink_call longUrl ownerId (run history w))
       = fst (GeneratedLink_call longUrl ownerId (run history' w))"
    by (rule GeneratedLink_call_reads_encoding) (simp add: run_keeps_encoding)
  have start: "fst (GeneratedLink_call longUrl ownerId (run history w)) = GeneratedLink longUrl ownerId"
    if "BitcoinEncoding w = NewEncoding alphabet"
    by (rule GeneratedLink_call_start) (simp add: run_keeps_encoding that)
  have reads: "fst (GeneratedLink_call longUrl ownerId w') = fst (GeneratedLink_call longUrl ownerId w)"
    if "BitcoinEncoding w' = BitcoinEncoding w"
    using that by (rule GeneratedLink_call_reads_encoding)
  from same start reads show ?thesis
    by (simp add: GeneratedLink_call_writes_nothing run_keeps_encoding)
qed

theorem GeneratedLink_deterministic_witness:
  "BitcoinEncoding start_world = NewEncoding alphabet
   \<and> BitcoinEncoding (elapse Hour start_world) = BitcoinEncoding start_world
   \<and> fst (GeneratedLink_call ''https://www.guru3d.com/'' ''e0dba740'' (elapse Hour start_world))
       = fst (GeneratedLink_call ''https://www.guru3d.com/'' ''e0dba740'' start_world)
   \<and> fst (GeneratedLink_call ''https://www.guru3d.com/'' ''e0dba740''
         (run [CallInitializeStore,
               CallSaveUrlMapping ''Jsz4k57oAX'' ''https://www.guru3d.com/'' ''e0dba740'',
               CallGeneratedLink ''https://www.guru3d.com/'' ''e0dba740'',
               Wait Hour] start_world))
       = GeneratedLink ''https://www.guru3d.com/'' ''e0dba740''"
proof -
  have a: "BitcoinEncoding start_world = NewEncoding alphabet"
    by (simp add: start_world_def)
  have b: "BitcoinEncoding (elapse Hour start_world) = BitcoinEncoding start_world"
    by (simp add: elapse_def)
  from GeneratedLink_deterministic [where w = start_world and w' = "elapse Hour start_world"
      and longUrl = "''https://www.guru3d.com/''" and ownerId = "''e0dba740''"
      and history = "[CallInitializeStore,
               CallSaveUrlMapping ''Jsz4k57oAX'' ''https://www.guru3d.com/'' ''e0dba740'',
               CallGeneratedLink ''https://www.guru3d.com/'' ''e0dba740'',
               Wait Hour]"] a b
  show ?thesis
    by simp
qed

text \<open>
  Claim C9. \<open>GeneratedLink\<close> depends on its arguments only through their concatenation:
  two pairs with the same concatenation get the same result.
\<close>

theorem GeneratedLink_concatenation:
  "longUrl @ ownerId = longUrl' @ ownerId'
   \<Longrightarrow> GeneratedLink longUrl ownerId = GeneratedLink longUrl' ownerId'"
  by (simp add: GeneratedLink_def)

theorem GeneratedLink_concatenation_witness:
  "''ab'' @ ''c'' = ''a'' @ ''bc'' \<and> (''ab'', ''c'') \<noteq> (''a'', ''bc'')
   \<and> GeneratedLink ''ab'' ''c'' = GeneratedLink ''a'' ''bc''"
  using GeneratedLink_concatenation [of "''ab''" "''c''" "''a''" "''bc''"] by simp

section \<open>The claims about the store\<close>

lemma ready_world_fields:
  "redisClient (storeService ready_world)
     = Some (NewClient \<lparr>Addr = ''localhost:6379'', Password = [], DB = 0\<rparr>)"
  "server_up ready_world" "server_db ready_world = Map.empty" "clock ready_world = 0"
  by (simp_all add: ready_world_def InitializeStore_def Ping_def Let_def start_world_def)

lemma ready_world_ready:
  "redisClient (storeService ready_world) \<noteq> None" "server_up ready_world"
  by (simp_all add: ready_world_fields)

lemma elapse_fields:
  "storeService (elapse d w) = storeService w" "server_up (elapse d w) = server_up w"
  "server_db (elapse d w) = server_db w" "clock (elapse d w) = clock w + d"
  by (simp_all add: elapse_def)

lemma SaveUrlMapping_ready:
  assumes "redisClient (storeService w) \<noteq> None" and "server_up w"
  shows "SaveUrlMapping code longUrl ownerId w
    = (Inr (), w\<lparr>server_db := (server_db w)(code \<mapsto> (longUrl, Some (clock w + CacheDuration)))\<rparr>)"
proof -
  have "CacheDuration \<noteq> 0"
    by (simp add: CacheDuration_def Hour_def Minute_def Second_def)
  with assms show ?thesis
    by (auto simp: SaveUrlMapping_def Set_cmd_def)
qed

lemma exec_keeps_handle:
  "redisClient (storeService w) \<noteq> None
   \<Longrightarrow> redisClient (storeService (snd (exec c w))) \<noteq> None"
  by (cases c)
    (auto simp: InitializeStore_def SaveUrlMapping_def RetrieveInitialUrl_def Set_cmd_def
      GeneratedLink_call_writes_nothing case_prod_beta elapse_def Let_def
      split: sum.splits option.splits if_splits)

lemma run_keeps_handle:
  "redisClient (storeService w) \<noteq> None \<Longrightarrow> redisClient (storeService (run cs w)) \<noteq> None"
proof (induction cs arbitrary: w)
  case Nil
  then show ?case by simp
next
  case (Cons c cs)
  then show ?case using exec_keeps_handle [of w c] by simp
qed

lemma exec_no_initialize:
  "\<not> is_initialize c \<Longrightarrow> storeService (snd (exec c w)) = storeService w"
  by (cases c)
    (auto simp: SaveUrlMapping_def RetrieveInitialUrl_def Set_cmd_def elapse_def
      GeneratedLink_call_writes_nothing case_prod_beta
      split: sum.splits option.splits if_splits)

lemma run_no_initialize:
  "list_all (\<lambda>c. \<not> is_initialize c) cs \<Longrightarrow> storeService (run cs w) = storeService w"
proof (induction cs arbitrary: w)
  case Nil
  then show ?case by simp
next
  case (Cons c cs)
  then show ?case using exec_no_initialize [of c w] by simp
qed

lemma exec_blank_owner: "snd (exec (blank_owner c) w) = snd (exec c w)"
  by (cases c) (simp_all add: SaveUrlMapping_def)

lemma run_blank_owner: "run (map blank_owner cs) w = run cs w"
  by (induction cs arbitrary: w) (simp_all add: exec_blank_owner)

text \<open>
  Claim C3, as the code has it. For a code that is absent from the store or whose
  time-to-live has run out, \<open>RetrieveInitialUrl\<close> (on an initialised store whose server
  answers) panics with the message made from the store's \<open>redis: nil\<close> error; it returns
  no value and leaves the world unchanged.
\<close>

theorem RetrieveInitialUrl_miss_panics:
  assumes "redisClient (storeService w) \<noteq> None" and "server_up w"
    and "absent_or_expired w code"
  shows "RetrieveInitialUrl code w
    = (Inl (PanicMessage ''failed RetrieveInitialUrl url | Error : redis: nil''), w)"
  using assms
  by (auto simp: RetrieveInitialUrl_def Get_cmd_def absent_or_expired_def
      split: option.splits)

theorem RetrieveInitialUrl_miss_panics_witness:
  "redisClient (storeService (elapse CacheDuration
       (snd (SaveUrlMapping ''Jsz4k57oAX'' ''https://www.guru3d.com/'' ''e0dba740'' ready_world)))) \<noteq> None
   \<and> server_up (elapse CacheDuration
       (snd (SaveUrlMapping ''Jsz4k57oAX'' ''https://www.guru3d.com/'' ''e0dba740'' ready_world)))
   \<and> absent_or_expired (elapse CacheDuration
       (snd (SaveUrlMapping ''Jsz4k57oAX'' ''https://www.guru3d.com/'' ''e0dba740'' ready_world)))
         ''Jsz4k57oAX''
   \<and> fst (RetrieveInitialUrl ''Jsz4k57oAX'' (elapse CacheDuration
       (snd (SaveUrlMapping ''Jsz4k57oAX'' ''https://www.guru3d.com/'' ''e0dba740'' ready_world))))
     = Inl (PanicMessage ''failed RetrieveInitialUrl url | Error : redis: nil'')"
proof -
  let ?w = "elapse CacheDuration
       (snd (SaveUrlMapping ''Jsz4k57oAX'' ''https://www.guru3d.com/'' ''e0dba740'' ready_world))"
  note r = ready_world_ready
  have h1: "redisClient (storeService ?w) \<noteq> None" and h2: "server_up ?w"
    and h3: "absent_or_expired ?w ''Jsz4k57oAX''"
    by (simp_all add: SaveUrlMapping_ready [OF r] elapse_fields absent_or_expired_def live_def
        ready_world_fields)
  from RetrieveInitialUrl_miss_panics [OF h1 h2 h3] h1 h2 h3 show ?thesis
    by simp
qed

text \<open>
  Claim C3 as stated fails: on an initialised store that holds no key, the lookup of an
  unknown code ends in a panic, not in a returned error value.
\<close>

theorem RetrieveInitialUrl_miss_counterexample:
  "redisClient (storeService ready_world) \<noteq> None \<and> server_up ready_world
   \<and> absent_or_expired ready_world ''Jsz4k57oAX''
   \<and> fst (RetrieveInitialUrl ''Jsz4k57oAX'' ready_world)
       = Inl (PanicMessage ''failed RetrieveInitialUrl url | Error : redis: nil'')"
  by (simp add: ready_world_fields absent_or_expired_def RetrieveInitialUrl_def
      Get_cmd_def)

text \<open>
  Claim C5. On an initialised store whose server answers, \<open>SaveUrlMapping code longUrl
  ownerId\<close> returns, and \<open>RetrieveInitialUrl code\<close> called less than \<open>CacheDuration\<close>
  (6 hours) later returns exactly \<open>longUrl\<close>.
\<close>

theorem put_get_round_trip:
  assumes "redisClient (storeService w) \<noteq> None" and "server_up w" and "d < CacheDuration"
  shows "fst (SaveUrlMapping code longUrl ownerId w) = Inr ()
    \<and> fst (RetrieveInitialUrl code (elapse d (snd (SaveUrlMapping code longUrl ownerId w))))
        = Inr longUrl"
  using assms
  by (auto simp: SaveUrlMapping_ready RetrieveInitialUrl_def Get_cmd_def elapse_def live_def)

theorem put_get_round_trip_witness:
  "redisClient (storeService ready_world) \<noteq> None \<and> server_up ready_world
   \<and> 5 * Hour < CacheDuration
   \<and> fst (RetrieveInitialUrl ''Jsz4k57oAX'' (elapse (5 * Hour) (snd (SaveUrlMapping ''Jsz4k57oAX''
        ''https://www.guru3d.com/news-story/spotted-ryzen-threadripper-pro-3995wx-processor-with-8-channel-ddr4,2.html''
        ''e0dba740-fc4b-4977-872c-d360239e6b1a'' ready_world))))
     = Inr ''https://www.guru3d.com/news-story/spotted-ryzen-threadripper-pro-3995wx-processor-with-8-channel-ddr4,2.html''"
proof -
  note r = ready_world_ready
  have t: "5 * Hour < CacheDuration"
    by (simp add: CacheDuration_def Hour_def Minute_def Second_def)
  from put_get_round_trip [OF r t] r t show ?thesis
    by simp
qed

text \<open>
  Claim C6. On an initialised store whose server answers, \<open>SaveUrlMapping code longUrl
  ownerId\<close> returns and changes the world in one place only: the entry at \<open>code\<close> becomes
  \<open>longUrl\<close> with expiry 6 hours (21600000000000 ns) after the clock at the write,
  whatever the entry was before; every other code keeps its entry.
\<close>

theorem SaveUrlMapping_effect:
  assumes "redisClient (storeService w) \<noteq> None" and "server_up w"
  shows "SaveUrlMapping code longUrl ownerId w
      = (Inr (), w\<lparr>server_db := (server_db w)
                      (code \<mapsto> (longUrl, Some (clock w + 21600000000000)))\<rparr>)
    \<and> server_db (snd (SaveUrlMapping code longUrl ownerId w)) code
        = Some (longUrl, Some (clock w + 6 * 60 * 60 * 1000000000))
    \<and> (\<forall>other. other \<noteq> code \<longrightarrow>
          server_db (snd (SaveUrlMapping code longUrl ownerId w)) other = server_db w other)"
  by (simp add: SaveUrlMapping_ready [OF assms] CacheDuration_def Hour_def Minute_def Second_def)

theorem SaveUrlMapping_effect_witness:
  "redisClient (storeService (snd (SaveUrlMapping ''Jsz4k57oAX'' ''https://old.example/'' ''u1''
       (elapse Hour ready_world)))) \<noteq> None
   \<and> server_up (snd (SaveUrlMapping ''Jsz4k57oAX'' ''https://old.example/'' ''u1''
       (elapse Hour ready_world)))
   \<and> server_db (snd (SaveUrlMapping ''Jsz4k57oAX'' ''https://new.example/'' ''u2''
       (elapse Hour (snd (SaveUrlMapping ''Jsz4k57oAX'' ''https://old.example/'' ''u1''
         (elapse Hour ready_world)))))) ''Jsz4k57oAX''
     = Some (''https://new.example/'', Some (2 * Hour + 6 * Hour))"
proof -
  let ?w1 = "elapse Hour ready_world"
  let ?w2 = "elapse Hour (snd (SaveUrlMapping ''Jsz4k57oAX'' ''https://old.example/'' ''u1'' ?w1))"
  have r1: "redisClient (storeService ?w1) \<noteq> None" "server_up ?w1"
    by (simp_all add: ready_world_fields elapse_fields)
  have r2: "redisClient (storeService ?w2) \<noteq> None" "server_up ?w2" and c: "clock ?w2 = 2 * Hour"
    by (simp_all add: SaveUrlMapping_ready [OF r1] ready_world_fields elapse_fields)
  have r3: "redisClient (storeService (snd (SaveUrlMapping ''Jsz4k57oAX'' ''https://old.example/'' ''u1'' ?w1))) \<noteq> None"
     "server_up (snd (SaveUrlMapping ''Jsz4k57oAX'' ''https://old.example/'' ''u1'' ?w1))"
    by (simp_all add: SaveUrlMapping_ready [OF r1] ready_world_fields elapse_fields)
  from SaveUrlMapping_effect [OF r2, of "''Jsz4k57oAX''" "''https://new.example/''" "''u2''"] r3 c
  show ?thesis
    by (simp add: Hour_def Minute_def Second_def)
qed

text \<open>
  Claim C8. The owner id passed to \<open>SaveUrlMapping\<close> has no effect: two calls that
  differ only in it give the same result and the same world, in any world; and two call
  sequences that differ only in the owner ids of their \<open>SaveUrlMapping\<close> calls lead to
  the same world, so every later \<open>RetrieveInitialUrl\<close> gives the same result after both.
\<close>

theorem SaveUrlMapping_ignores_owner:
  "SaveUrlMapping code longUrl ownerId w = SaveUrlMapping code longUrl ownerId' w
   \<and> (map blank_owner cs = map blank_owner cs' \<longrightarrow>
        run cs w = run cs' w
        \<and> RetrieveInitialUrl k (run cs w) = RetrieveInitialUrl k (run cs' w))"
proof -
  have "run cs w = run cs' w" if "map blank_owner cs = map blank_owner cs'"
    using run_blank_owner [of cs w] run_blank_owner [of cs' w] that by simp
  then show ?thesis
    by (simp add: SaveUrlMapping_def)
qed

theorem SaveUrlMapping_ignores_owner_witness:
  "map blank_owner [CallSaveUrlMapping ''Jsz4k57oAX'' ''https://a.example/'' ''alice'', Wait Hour]
     = map blank_owner [CallSaveUrlMapping ''Jsz4k57oAX'' ''https://a.example/'' ''bob'', Wait Hour]
   \<and> RetrieveInitialUrl ''Jsz4k57oAX''
        (run [CallSaveUrlMapping ''Jsz4k57oAX'' ''https://a.example/'' ''alice'', Wait Hour] ready_world)
     = RetrieveInitialUrl ''Jsz4k57oAX''
        (run [CallSaveUrlMapping ''Jsz4k57oAX'' ''https://a.example/'' ''bob'', Wait Hour] ready_world)"
proof -
  let ?a = "[CallSaveUrlMapping ''Jsz4k57oAX'' ''https://a.example/'' ''alice'', Wait Hour]"
  let ?b = "[CallSaveUrlMapping ''Jsz4k57oAX'' ''https://a.example/'' ''bob'', Wait Hour]"
  have h: "map blank_owner ?a = map blank_owner ?b"
    by simp
  from SaveUrlMapping_ignores_owner [where cs = ?a and cs' = ?b and w = ready_world
      and k = "''Jsz4k57oAX''"] h
  show ?thesis
    by blast
qed

text \<open>
  Claim C10. While the \<open>redisClient\<close> field of \<open>storeService\<close> is nil, \<open>SaveUrlMapping\<close>
  and \<open>RetrieveInitialUrl\<close> end in a nil pointer dereference and return no value; the
  field is nil when the process starts, stays nil through an \<open>InitializeStore\<close> that fails
  and through every call other than \<open>InitializeStore\<close>; after an \<open>InitializeStore\<close> that
  returns it is not nil, and no later call makes it nil again.
\<close>

theorem store_needs_initialize:
  "(redisClient (storeService w) = None \<longrightarrow>
      SaveUrlMapping code longUrl ownerId w = (Inl NilPointerDereference, w)
      \<and> RetrieveInitialUrl code w = (Inl NilPointerDereference, w))
   \<and> redisClient (storeService start_world) = None
   \<and> (list_all (\<lambda>c. \<not> is_initialize c) cs \<longrightarrow>
        redisClient (storeService (run cs w)) = redisClient (storeService w))
   \<and> (\<not> server_up w \<longrightarrow> snd (InitializeStore w) = w \<and> fst (InitializeStore w)
        = Inl (PanicMessage (''Error init Redis '' @ server_fault w @ '':'')))
   \<and> (server_up w \<longrightarrow>
        fst (InitializeStore w) = Inr (storeService (snd (InitializeStore w)))
        \<and> redisClient (storeService (snd (InitializeStore w))) \<noteq> None
        \<and> redisClient (storeService (run cs (snd (InitializeStore w)))) \<noteq> None)"
proof -
  have "redisClient (storeService (snd (InitializeStore w))) \<noteq> None" if "server_up w"
    using that by (simp add: InitializeStore_def Ping_def Let_def)
  then show ?thesis
    using run_keeps_handle [of "snd (InitializeStore w)" cs] run_no_initialize [of cs w]
    by (auto simp: SaveUrlMapping_def RetrieveInitialUrl_def InitializeStore_def Ping_def
        Let_def start_world_def initial_storeService_def)
qed

theorem store_needs_initialize_witness:
  "redisClient (storeService start_world) = None
   \<and> fst (SaveUrlMapping ''Jsz4k57oAX'' ''https://a.example/'' ''u1'' start_world)
       = Inl NilPointerDereference
   \<and> fst (RetrieveInitialUrl ''Jsz4k57oAX'' start_world) = Inl NilPointerDereference
   \<and> list_all (\<lambda>c. \<not> is_initialize c) [Wait Hour, CallRetrieveInitialUrl ''Jsz4k57oAX'']
   \<and> redisClient (storeService (run [Wait Hour, CallRetrieveInitialUrl ''Jsz4k57oAX''] start_world))
       = None
   \<and> server_up start_world
   \<and> redisClient (storeService (run [Wait Hour, CallRetrieveInitialUrl ''Jsz4k57oAX'']
        (snd (InitializeStore start_world)))) \<noteq> None"
proof -
  have n: "redisClient (storeService start_world) = None"
    by (simp add: start_world_def initial_storeService_def)
  have l: "list_all (\<lambda>c. \<not> is_initialize c) [Wait Hour, CallRetrieveInitialUrl ''Jsz4k57oAX'']"
    by simp
  have u: "server_up start_world"
    by (simp add: start_world_def)
  from store_needs_initialize [of start_world "''Jsz4k57oAX''" "''https://a.example/''" "''u1''"
      "[Wait Hour, CallRetrieveInitialUrl ''Jsz4k57oAX'']"] n l u
  show ?thesis
    by simp
qed

end
